theory Spec2Isabelle
  imports Main "HOL-Library.Word"
begin

unbundle bit_operations_syntax

section \<open>JavaScript strings\<close>

text \<open>
  A JavaScript string is a sequence of 16-bit code units; \<open>length\<close>, \<open>slice\<close> and
  \<open>substring\<close> count code units. \<open>lit\<close> embeds an ASCII literal of the source.
\<close>

type_synonym code_unit = "16 word"
type_synonym jsstring = "code_unit list"

definition lit :: "string \<Rightarrow> jsstring" where
  "lit s = map of_char s"

text \<open>\<open>String.prototype.slice(b, e)\<close> for non-negative integer arguments.\<close>

definition slice :: "jsstring \<Rightarrow> nat \<Rightarrow> nat \<Rightarrow> jsstring" where
  "slice s b e =
     (let len = length s; from = min b len; to = min e len
      in take (to - from) (drop from s))"

text \<open>\<open>String.prototype.substring(b, e)\<close> for non-negative integer arguments: the two
  clamped positions are swapped when the first is the larger.\<close>

definition substring :: "jsstring \<Rightarrow> nat \<Rightarrow> nat \<Rightarrow> jsstring" where
  "substring s b e =
     (let len = length s; final_start = min b len; final_end = min e len;
          from = min final_start final_end; to = max final_start final_end
      in take (to - from) (drop from s))"

section \<open>TodoItemFormatter\<close>

definition formatTask :: "jsstring \<Rightarrow> jsstring" where
  "formatTask task = (if length task > 14 then slice task 0 14 @ lit ''...'' else task)"

text \<open>The argument of \<open>formatDueDate\<close> is \<open>None\<close> when the caller passes \<open>undefined\<close> or
  \<open>null\<close>; the empty string is the only falsy string.\<close>

definition formatDueDate :: "jsstring option \<Rightarrow> jsstring" where
  "formatDueDate dueDate =
     (case dueDate of
        None \<Rightarrow> lit ''No due date''
      | Some d \<Rightarrow> if d = [] then lit ''No due date'' else d)"

definition formatStatus :: "bool \<Rightarrow> jsstring" where
  "formatStatus completed = (if completed then lit ''Completed'' else lit ''Pending'')"

section \<open>Todo records and the key-value store\<close>

text \<open>A todo record, with the five properties \<open>addTodo\<close> creates and the types it
  gives them.\<close>

record todo =
  id' :: jsstring
  task :: jsstring
  dueDate :: jsstring
  completed :: bool
  status :: jsstring

text \<open>
  \<open>localStorage\<close>: the items, and the \<open>setItem\<close> calls made so far, oldest first, so
  that a write is observable even when it stores what was there already. The
  storage quota is not modelled: \<open>setItem\<close> always succeeds.
\<close>

record local_storage =
  items :: "jsstring \<rightharpoonup> jsstring"
  setItem_calls :: "(jsstring \<times> jsstring) list"

definition getItem :: "local_storage \<Rightarrow> jsstring \<Rightarrow> jsstring option" where
  "getItem ls k = items ls k"

definition setItem :: "jsstring \<Rightarrow> jsstring \<Rightarrow> local_storage \<Rightarrow> local_storage" where
  "setItem k v ls =
     ls\<lparr>items := (items ls)(k \<mapsto> v), setItem_calls := setItem_calls ls @ [(k, v)]\<rparr>"

section \<open>JSON.stringify on a list of todo records\<close>

definition hex_digit :: "code_unit \<Rightarrow> code_unit" where
  "hex_digit n = (if n < 10 then 0x30 + n else 0x57 + n)"

text \<open>\<open>UnicodeEscape\<close>: a backslash, \<open>u\<close> and four lowercase hexadecimal digits.\<close>

definition UnicodeEscape :: "code_unit \<Rightarrow> jsstring" where
  "UnicodeEscape c =
     [0x5C, 0x75, hex_digit (drop_bit 12 c), hex_digit (drop_bit 8 c AND 0xF),
      hex_digit (drop_bit 4 c AND 0xF), hex_digit (c AND 0xF)]"

definition is_leading_surrogate :: "code_unit \<Rightarrow> bool" where
  "is_leading_surrogate c = (0xD800 \<le> c \<and> c \<le> 0xDBFF)"

definition is_trailing_surrogate :: "code_unit \<Rightarrow> bool" where
  "is_trailing_surrogate c = (0xDC00 \<le> c \<and> c \<le> 0xDFFF)"

text \<open>The escape of one code unit that is not the first half of a surrogate pair.\<close>

definition quote_unit :: "code_unit \<Rightarrow> jsstring" where
  "quote_unit c =
     (if c = 0x08 then [0x5C, 0x62]
      else if c = 0x09 then [0x5C, 0x74]
      else if c = 0x0A then [0x5C, 0x6E]
      else if c = 0x0C then [0x5C, 0x66]
      else if c = 0x0D then [0x5C, 0x72]
      else if c = 0x22 then [0x5C, 0x22]
      else if c = 0x5C then [0x5C, 0x5C]
      else if c < 0x20 \<or> is_leading_surrogate c \<or> is_trailing_surrogate c
        then UnicodeEscape c
      else [c])"

fun quote_units :: "jsstring \<Rightarrow> jsstring" where
  "quote_units [] = []"
| "quote_units [c] = quote_unit c"
| "quote_units (c # d # cs) =
     (if is_leading_surrogate c \<and> is_trailing_surrogate d
      then c # d # quote_units cs
      else quote_unit c @ quote_units (d # cs))"

definition QuoteJSONString :: "jsstring \<Rightarrow> jsstring" where
  "QuoteJSONString s = [0x22] @ quote_units s @ [0x22]"

definition json_key :: "string \<Rightarrow> jsstring" where
  "json_key k = [0x22] @ lit k @ [0x22, 0x3A]"

text \<open>The properties are written in the order in which \<open>addTodo\<close> creates them.\<close>

definition stringify_todo :: "todo \<Rightarrow> jsstring" where
  "stringify_todo t =
     [0x7B] @ json_key ''id'' @ QuoteJSONString (id' t) @
     [0x2C] @ json_key ''task'' @ QuoteJSONString (task t) @
     [0x2C] @ json_key ''dueDate'' @ QuoteJSONString (dueDate t) @
     [0x2C] @ json_key ''completed'' @ lit (if completed t then ''true'' else ''false'') @
     [0x2C] @ json_key ''status'' @ QuoteJSONString (status t) @ [0x7D]"

fun join_comma :: "jsstring list \<Rightarrow> jsstring" where
  "join_comma [] = []"
| "join_comma [x] = x"
| "join_comma (x # y # ys) = x @ [0x2C] @ join_comma (y # ys)"

definition JSON_stringify :: "todo list \<Rightarrow> jsstring" where
  "JSON_stringify ts = [0x5B] @ join_comma (map stringify_todo ts) @ [0x5D]"

section \<open>JSON.parse\<close>

text \<open>
  The values \<open>JSON.parse\<close> can return. A number is kept as the decimal numeral it
  was written as: \<open>JNumber m e\<close> stands for \<open>m * 10 ^ e\<close>. An object keeps its members
  in the order of the text.
\<close>

datatype json =
    JNull
  | JBool bool
  | JNumber int int
  | JString jsstring
  | JArray "json list"
  | JObject "(jsstring \<times> json) list"

datatype error = SyntaxError

datatype token = TLBrace | TRBrace | TLBracket | TRBracket | TColon | TComma | TScalar json

definition is_ws :: "code_unit \<Rightarrow> bool" where
  "is_ws c = (c = 0x09 \<or> c = 0x0A \<or> c = 0x0D \<or> c = 0x20)"

definition is_digit :: "code_unit \<Rightarrow> bool" where
  "is_digit c = (0x30 \<le> c \<and> c \<le> 0x39)"

definition hex_value :: "code_unit \<Rightarrow> code_unit option" where
  "hex_value c =
     (if 0x30 \<le> c \<and> c \<le> 0x39 then Some (c - 0x30)
      else if 0x41 \<le> c \<and> c \<le> 0x46 then Some (c - 0x37)
      else if 0x61 \<le> c \<and> c \<le> 0x66 then Some (c - 0x57)
      else None)"

definition hex4 :: "code_unit \<Rightarrow> code_unit \<Rightarrow> code_unit \<Rightarrow> code_unit \<Rightarrow> code_unit option" where
  "hex4 a b c d =
     (case (hex_value a, hex_value b, hex_value c, hex_value d) of
        (Some w, Some x, Some y, Some z) \<Rightarrow>
          Some (push_bit 12 w OR push_bit 8 x OR push_bit 4 y OR z)
      | _ \<Rightarrow> None)"

text \<open>The code unit a one-character escape stands for.\<close>

definition simple_escape :: "code_unit \<Rightarrow> code_unit option" where
  "simple_escape e =
     (if e = 0x22 then Some 0x22
      else if e = 0x2F then Some 0x2F
      else if e = 0x5C then Some 0x5C
      else if e = 0x62 then Some 0x08
      else if e = 0x66 then Some 0x0C
      else if e = 0x6E then Some 0x0A
      else if e = 0x72 then Some 0x0D
      else if e = 0x74 then Some 0x09
      else None)"

definition cons_fst :: "'a \<Rightarrow> ('a list \<times> 'b) option \<Rightarrow> ('a list \<times> 'b) option" where
  "cons_fst u r = map_option (\<lambda>(s, rest). (u # s, rest)) r"

text \<open>The characters of a string after its opening quote, up to the closing quote,
  and the text after it.\<close>

fun lex_string :: "code_unit list \<Rightarrow> (jsstring \<times> code_unit list) option" where
  "lex_string [] = None"
| "lex_string (c # cs) =
     (if c = 0x22 then Some ([], cs)
      else if c < 0x20 then None
      else if c = 0x5C then
        (case cs of
           [] \<Rightarrow> None
         | e # r \<Rightarrow>
             if e = 0x75 then
               (case r of
                  h1 # h2 # h3 # h4 # r' \<Rightarrow>
                    (case hex4 h1 h2 h3 h4 of
                       None \<Rightarrow> None
                     | Some u \<Rightarrow> cons_fst u (lex_string r'))
                | _ \<Rightarrow> None)
             else
               (case simple_escape e of
                  None \<Rightarrow> None
                | Some u \<Rightarrow> cons_fst u (lex_string r)))
      else cons_fst c (lex_string cs))"

definition digits_value :: "code_unit list \<Rightarrow> int" where
  "digits_value ds = foldl (\<lambda>a d. 10 * a + (uint d - 48)) 0 ds"

text \<open>
  A number: an optional minus, \<open>0\<close> or a digit sequence that does not start with
  \<open>0\<close>, an optional fraction with at least one digit, an optional exponent with
  at least one digit. Each part returns what it read and the text after it.
\<close>

definition lex_sign :: "code_unit list \<Rightarrow> bool \<times> code_unit list" where
  "lex_sign cs = (if cs \<noteq> [] \<and> hd cs = 0x2D then (True, tl cs) else (False, cs))"

definition lex_int :: "code_unit list \<Rightarrow> (code_unit list \<times> code_unit list) option" where
  "lex_int cs =
     (let ip = takeWhile is_digit cs
      in if ip = [] \<or> (hd ip = 0x30 \<and> length ip > 1) then None
         else Some (ip, dropWhile is_digit cs))"

definition lex_frac :: "code_unit list \<Rightarrow> (code_unit list \<times> code_unit list) option" where
  "lex_frac cs =
     (if cs \<noteq> [] \<and> hd cs = 0x2E then
        (let fd = takeWhile is_digit (tl cs)
         in if fd = [] then None else Some (fd, dropWhile is_digit (tl cs)))
      else Some ([], cs))"

definition lex_exp :: "code_unit list \<Rightarrow> (int \<times> code_unit list) option" where
  "lex_exp cs =
     (if cs \<noteq> [] \<and> (hd cs = 0x65 \<or> hd cs = 0x45) then
        (let (eneg, cs') = lex_sign (tl cs);
             cs'' = (if \<not> eneg \<and> cs' \<noteq> [] \<and> hd cs' = 0x2B then tl cs' else cs');
             ed = takeWhile is_digit cs''
         in if ed = [] then None
            else Some (if eneg then - digits_value ed else digits_value ed,
                       dropWhile is_digit cs''))
      else Some (0, cs))"

definition lex_number :: "code_unit list \<Rightarrow> (json \<times> code_unit list) option" where
  "lex_number cs =
     (case lex_sign cs of (neg, cs1) \<Rightarrow>
      case lex_int cs1 of None \<Rightarrow> None | Some (ip, cs2) \<Rightarrow>
      case lex_frac cs2 of None \<Rightarrow> None | Some (fd, cs3) \<Rightarrow>
      case lex_exp cs3 of None \<Rightarrow> None | Some (x, cs4) \<Rightarrow>
        Some (JNumber (if neg then - digits_value (ip @ fd) else digits_value (ip @ fd))
                (x - int (length fd)), cs4))"

lemma lex_string_shorter: "lex_string cs = Some (s, rest) \<Longrightarrow> length rest < length cs"
proof (induction cs arbitrary: s rest rule: lex_string.induct)
  case 1
  then show ?case by simp
next
  case (2 c cs)
  then show ?case
    by (fastforce simp: cons_fst_def split: if_splits list.splits option.splits)
qed

lemma dropWhile_shorter: "takeWhile P xs \<noteq> [] \<Longrightarrow> length (dropWhile P xs) < length xs"
proof -
  assume "takeWhile P xs \<noteq> []"
  then have "0 < length (takeWhile P xs)" by simp
  moreover have "length xs = length (takeWhile P xs) + length (dropWhile P xs)"
    by (metis length_append takeWhile_dropWhile_id)
  ultimately show ?thesis by linarith
qed

lemma lex_sign_length: "lex_sign cs = (b, rest) \<Longrightarrow> length rest \<le> length cs"
  by (auto simp: lex_sign_def split: if_splits)

lemma lex_int_shorter: "lex_int cs = Some (ds, rest) \<Longrightarrow> length rest < length cs"
  by (auto simp: lex_int_def Let_def dropWhile_shorter split: if_splits)

lemma lex_frac_length: "lex_frac cs = Some (ds, rest) \<Longrightarrow> length rest \<le> length cs"
  using length_dropWhile_le [of is_digit "tl cs"]
  by (auto simp: lex_frac_def Let_def split: if_splits)

lemma lex_exp_length:
  assumes "lex_exp cs = Some (x, rest)"
  shows "length rest \<le> length cs"
proof (cases "cs \<noteq> [] \<and> (hd cs = 0x65 \<or> hd cs = 0x45)")
  case False
  with assms show ?thesis by (auto simp: lex_exp_def)
next
  case True
  obtain eneg cs' where s: "lex_sign (tl cs) = (eneg, cs')" by (cases "lex_sign (tl cs)")
  define cs'' where "cs'' = (if \<not> eneg \<and> cs' \<noteq> [] \<and> hd cs' = 0x2B then tl cs' else cs')"
  from assms True s have "rest = dropWhile is_digit cs''"
    by (auto simp: lex_exp_def Let_def cs''_def split: if_splits)
  moreover have "length cs' \<le> length (tl cs)" using s by (rule lex_sign_length)
  moreover have "length cs'' \<le> length cs'" by (simp add: cs''_def)
  moreover have "length (dropWhile is_digit cs'') \<le> length cs''" by (rule length_dropWhile_le)
  ultimately show ?thesis by simp
qed

lemma lex_number_shorter:
  assumes "lex_number cs = Some (v, rest)"
  shows "length rest < length cs"
proof -
  obtain neg cs1 where s: "lex_sign cs = (neg, cs1)" by (cases "lex_sign cs")
  from assms s obtain ip cs2 where i: "lex_int cs1 = Some (ip, cs2)"
    by (auto simp: lex_number_def split: option.splits)
  from assms s i obtain fd cs3 where f: "lex_frac cs2 = Some (fd, cs3)"
    by (auto simp: lex_number_def split: option.splits)
  from assms s i f obtain x where e: "lex_exp cs3 = Some (x, rest)"
    by (auto simp: lex_number_def split: option.splits)
  from lex_sign_length [OF s] lex_int_shorter [OF i] lex_frac_length [OF f] lex_exp_length [OF e]
  show ?thesis by linarith
qed

function tokenize :: "code_unit list \<Rightarrow> token list option" where
  "tokenize [] = Some []"
| "tokenize (c # cs) =
     (if is_ws c then tokenize cs
      else if c = 0x7B then map_option ((#) TLBrace) (tokenize cs)
      else if c = 0x7D then map_option ((#) TRBrace) (tokenize cs)
      else if c = 0x5B then map_option ((#) TLBracket) (tokenize cs)
      else if c = 0x5D then map_option ((#) TRBracket) (tokenize cs)
      else if c = 0x3A then map_option ((#) TColon) (tokenize cs)
      else if c = 0x2C then map_option ((#) TComma) (tokenize cs)
      else if c = 0x22 then
        (case lex_string cs of
           None \<Rightarrow> None
         | Some (s, rest) \<Rightarrow> map_option ((#) (TScalar (JString s))) (tokenize rest))
      else if c = 0x2D \<or> is_digit c then
        (case lex_number (c # cs) of
           None \<Rightarrow> None
         | Some (v, rest) \<Rightarrow> map_option ((#) (TScalar v)) (tokenize rest))
      else if take 4 (c # cs) = lit ''true''
        then map_option ((#) (TScalar (JBool True))) (tokenize (drop 3 cs))
      else if take 5 (c # cs) = lit ''false''
        then map_option ((#) (TScalar (JBool False))) (tokenize (drop 4 cs))
      else if take 4 (c # cs) = lit ''null''
        then map_option ((#) (TScalar JNull)) (tokenize (drop 3 cs))
      else None)"
  by pat_completeness auto
termination
proof (relation "measure length")
  fix c cs x2 s rest
  assume "lex_string cs = Some x2" "(s, rest) = x2"
  then have "length rest < length cs" by (auto dest: lex_string_shorter)
  then show "(rest, c # cs) \<in> measure length" by simp
next
  fix c cs x2 v rest
  assume "lex_number (c # cs) = Some x2" "(v, rest) = x2"
  then show "(rest, c # cs) \<in> measure length" by (auto dest: lex_number_shorter)
qed simp_all

text \<open>
  The grammar over the tokens, as a pushdown automaton: the stack holds the arrays
  and objects that are open (their elements and members newest first) and the key
  whose value is being read.
\<close>

datatype frame = InArr "json list" | InObj "(jsstring \<times> json) list" | Pending jsstring

datatype pstate =
    Val "frame list"
  | Key "frame list"
  | Col "frame list"
  | Sep "frame list"
  | Finished json
  | Fail

text \<open>A value is complete: it goes to the array or to the pending key below it.\<close>

fun push_value :: "json \<Rightarrow> frame list \<Rightarrow> pstate" where
  "push_value v [] = Finished v"
| "push_value v (InArr vs # st) = Sep (InArr (v # vs) # st)"
| "push_value v (Pending k # InObj ms # st) = Sep (InObj ((k, v) # ms) # st)"
| "push_value v _ = Fail"

definition parse_step :: "pstate \<Rightarrow> token \<Rightarrow> pstate" where
  "parse_step p t =
     (case p of
        Val st \<Rightarrow>
          (case t of
             TScalar v \<Rightarrow> push_value v st
           | TLBracket \<Rightarrow> Val (InArr [] # st)
           | TLBrace \<Rightarrow> Key (InObj [] # st)
           | TRBracket \<Rightarrow>
               (case st of InArr [] # st' \<Rightarrow> push_value (JArray []) st' | _ \<Rightarrow> Fail)
           | _ \<Rightarrow> Fail)
      | Key st \<Rightarrow>
          (case t of
             TScalar (JString k) \<Rightarrow> Col (Pending k # st)
           | TRBrace \<Rightarrow>
               (case st of InObj [] # st' \<Rightarrow> push_value (JObject []) st' | _ \<Rightarrow> Fail)
           | _ \<Rightarrow> Fail)
      | Col st \<Rightarrow> (case t of TColon \<Rightarrow> Val st | _ \<Rightarrow> Fail)
      | Sep st \<Rightarrow>
          (case t of
             TComma \<Rightarrow>
               (case st of
                  InArr vs # st' \<Rightarrow> Val st
                | InObj ms # st' \<Rightarrow> Key st
                | _ \<Rightarrow> Fail)
           | TRBracket \<Rightarrow>
               (case st of InArr vs # st' \<Rightarrow> push_value (JArray (rev vs)) st' | _ \<Rightarrow> Fail)
           | TRBrace \<Rightarrow>
               (case st of InObj ms # st' \<Rightarrow> push_value (JObject (rev ms)) st' | _ \<Rightarrow> Fail)
           | _ \<Rightarrow> Fail)
      | Finished v \<Rightarrow> Fail
      | Fail \<Rightarrow> Fail)"

text \<open>\<open>JSON.parse\<close> of a string: the value, or the \<open>SyntaxError\<close> it throws.\<close>

definition JSON_parse :: "jsstring \<Rightarrow> error + json" where
  "JSON_parse text =
     (case tokenize text of
        None \<Rightarrow> Inl SyntaxError
      | Some ts \<Rightarrow>
          (case foldl parse_step (Val []) ts of
             Finished v \<Rightarrow> Inr v
           | _ \<Rightarrow> Inl SyntaxError))"

text \<open>\<open>ToBoolean\<close> on a parsed value. A number is falsy when its value is zero as
  a double: the numeral is zero, or it is at most \<open>2 ^ -1075\<close> in magnitude and
  rounds to zero.\<close>

definition number_is_zero :: "int \<Rightarrow> int \<Rightarrow> bool" where
  "number_is_zero m e = (m = 0 \<or> (e < 0 \<and> \<bar>m\<bar> * 2 ^ 1075 \<le> 10 ^ nat (- e)))"

fun ToBoolean :: "json \<Rightarrow> bool" where
  "ToBoolean JNull = False"
| "ToBoolean (JBool b) = b"
| "ToBoolean (JNumber m e) = (\<not> number_is_zero m e)"
| "ToBoolean (JString s) = (s \<noteq> [])"
| "ToBoolean (JArray vs) = True"
| "ToBoolean (JObject ms) = True"

text \<open>
  A parsed value read as a list of todo records: an array of objects with exactly
  the five properties \<open>addTodo\<close> writes, in its order and of its types.
\<close>

definition as_string :: "json \<Rightarrow> jsstring option" where
  "as_string v = (case v of JString s \<Rightarrow> Some s | _ \<Rightarrow> None)"

definition as_bool :: "json \<Rightarrow> bool option" where
  "as_bool v = (case v of JBool b \<Rightarrow> Some b | _ \<Rightarrow> None)"

definition as_todo :: "json \<Rightarrow> todo option" where
  "as_todo v =
     (case v of
        JObject ms \<Rightarrow>
          if map fst ms = [lit ''id'', lit ''task'', lit ''dueDate'', lit ''completed'', lit ''status'']
          then
            (case map snd ms of
               [a, b, c, d, e] \<Rightarrow>
                 (case (as_string a, as_string b, as_string c, as_bool d, as_string e) of
                    (Some i, Some t, Some dd, Some cp, Some st) \<Rightarrow>
                      Some \<lparr>id' = i, task = t, dueDate = dd, completed = cp, status = st\<rparr>
                  | _ \<Rightarrow> None)
             | _ \<Rightarrow> None)
          else None
      | _ \<Rightarrow> None)"

definition as_collection :: "json \<Rightarrow> todo list option" where
  "as_collection v = (case v of JArray vs \<Rightarrow> those (map as_todo vs) | _ \<Rightarrow> None)"

section \<open>TodoManager\<close>

text \<open>The store: the \<open>todos\<close> array of the manager and the \<open>localStorage\<close> it
  persists to.\<close>

record store =
  todos :: "todo list"
  localStorage :: local_storage

definition todos_key :: jsstring where
  "todos_key = lit ''todos''"

text \<open>
  The constructor evaluates \<open>JSON.parse(localStorage.getItem("todos")) || []\<close>.
  \<open>getItem\<close> returns \<open>null\<close> for an absent key, which \<open>JSON.parse\<close> reads as the text
  \<open>null\<close>. An exception of \<open>JSON.parse\<close> is not caught. A truthy value that is not a
  list of todo records is kept by the source as it is; the typed collection cannot
  hold it, and the constructor's outcome is then \<open>Untyped\<close>.
\<close>

datatype construction = Throws error | Constructed store | Untyped json

definition TodoManager_constructor :: "local_storage \<Rightarrow> construction" where
  "TodoManager_constructor ls =
     (case JSON_parse (case getItem ls todos_key of None \<Rightarrow> lit ''null'' | Some s \<Rightarrow> s) of
        Inl e \<Rightarrow> Throws e
      | Inr v \<Rightarrow>
          (let ts = (if ToBoolean v then v else JArray [])
           in case as_collection ts of
                Some l \<Rightarrow> Constructed \<lparr>todos = l, localStorage = ls\<rparr>
              | None \<Rightarrow> Untyped ts))"

definition saveToLocalStorage :: "store \<Rightarrow> store" where
  "saveToLocalStorage s =
     s\<lparr>localStorage := setItem todos_key (JSON_stringify (todos s)) (localStorage s)\<rparr>"

text \<open>
  \<open>getRandomId\<close>: its two arguments are the strings that the two calls of
  \<open>Math.random().toString(36)\<close> evaluate to (\<open>0.i\<close> when the random number is 0.5).
\<close>

definition getRandomId :: "jsstring \<Rightarrow> jsstring \<Rightarrow> jsstring" where
  "getRandomId r1 r2 = substring r1 2 15 @ substring r2 2 15"

definition addTodo :: "jsstring \<Rightarrow> jsstring option \<Rightarrow> jsstring \<Rightarrow> jsstring \<Rightarrow> store \<Rightarrow> todo \<times> store" where
  "addTodo tsk due r1 r2 s =
     (let newTodo = \<lparr>id' = getRandomId r1 r2, task = formatTask tsk,
                      dueDate = formatDueDate due, completed = False,
                      status = lit ''pending''\<rparr>
      in (newTodo, saveToLocalStorage (s\<lparr>todos := todos s @ [newTodo]\<rparr>)))"

text \<open>\<open>Array.prototype.find\<close> returns the first match; the position stands for the
  reference to the object, which is then changed in place.\<close>

fun findIndex :: "('a \<Rightarrow> bool) \<Rightarrow> 'a list \<Rightarrow> nat option" where
  "findIndex P [] = None"
| "findIndex P (x # xs) = (if P x then Some 0 else map_option Suc (findIndex P xs))"

definition editTodo :: "jsstring \<Rightarrow> jsstring \<Rightarrow> store \<Rightarrow> todo option \<times> store" where
  "editTodo i updatedTask s =
     (case findIndex (\<lambda>t. id' t = i) (todos s) of
        None \<Rightarrow> (None, s)
      | Some n \<Rightarrow>
          (let t = (todos s ! n)\<lparr>task := updatedTask\<rparr>
           in (Some t, saveToLocalStorage (s\<lparr>todos := (todos s)[n := t]\<rparr>))))"

definition deleteTodo :: "jsstring \<Rightarrow> store \<Rightarrow> store" where
  "deleteTodo i s = saveToLocalStorage (s\<lparr>todos := filter (\<lambda>t. id' t \<noteq> i) (todos s)\<rparr>)"

definition toggleTodoStatus :: "jsstring \<Rightarrow> store \<Rightarrow> store" where
  "toggleTodoStatus i s =
     (case findIndex (\<lambda>t. id' t = i) (todos s) of
        None \<Rightarrow> s
      | Some n \<Rightarrow>
          (let t = todos s ! n
           in saveToLocalStorage
                (s\<lparr>todos := (todos s)[n := t\<lparr>completed := \<not> completed t\<rparr>]\<rparr>)))"

definition clearAllTodos :: "store \<Rightarrow> store" where
  "clearAllTodos s =
     (if length (todos s) > 0 then saveToLocalStorage (s\<lparr>todos := []\<rparr>) else s)"

definition filterTodos :: "jsstring \<Rightarrow> store \<Rightarrow> todo list" where
  "filterTodos st s =
     (if st = lit ''all'' then todos s
      else if st = lit ''pending'' then filter (\<lambda>t. \<not> completed t) (todos s)
      else if st = lit ''completed'' then filter (\<lambda>t. completed t) (todos s)
      else [])"

text \<open>The mutating operations as data, and a session as the list of the operations
  performed on a store, oldest first.\<close>

datatype operation =
    Add jsstring "jsstring option" jsstring jsstring
  | Edit jsstring jsstring
  | Delete jsstring
  | Toggle jsstring
  | ClearAll

fun perform :: "store \<Rightarrow> operation \<Rightarrow> store" where
  "perform s (Add tsk due r1 r2) = snd (addTodo tsk due r1 r2 s)"
| "perform s (Edit i updatedTask) = snd (editTodo i updatedTask s)"
| "perform s (Delete i) = deleteTodo i s"
| "perform s (Toggle i) = toggleTodoStatus i s"
| "perform s ClearAll = clearAllTodos s"

definition run :: "operation list \<Rightarrow> store \<Rightarrow> store" where
  "run ops s = foldl perform s ops"

section \<open>UIManager\<close>

text \<open>
  The page as far as the handlers below read and write it: the values of the two
  inputs, what the list body displays (the placeholder row, or one row per record
  with its three formatted cells and the id its buttons carry), the alert box
  (message and type), whether it is shown, and the hide timers started.
\<close>

record todo_row =
  row_id :: jsstring
  task_cell :: jsstring
  dueDate_cell :: jsstring
  status_cell :: jsstring

datatype rendering = NoTaskFound | Rows "todo_row list"

record UIManager =
  todoManager :: store
  taskInput :: jsstring
  dateInput :: jsstring
  todosListBody :: rendering
  alertMessage :: "(jsstring \<times> jsstring) option"
  alert_shown :: bool
  hide_timers :: nat

definition render_row :: "todo \<Rightarrow> todo_row" where
  "render_row t =
     \<lparr>row_id = id' t, task_cell = formatTask (task t),
      dueDate_cell = formatDueDate (Some (dueDate t)),
      status_cell = formatStatus (completed t)\<rparr>"

definition displayTodos :: "todo list \<Rightarrow> UIManager \<Rightarrow> UIManager" where
  "displayTodos l ui =
     ui\<lparr>todosListBody := (if length l = 0 then NoTaskFound else Rows (map render_row l))\<rparr>"

definition showAllTodos :: "UIManager \<Rightarrow> UIManager" where
  "showAllTodos ui = displayTodos (filterTodos (lit ''all'') (todoManager ui)) ui"

definition showAlertMessage :: "jsstring \<Rightarrow> jsstring \<Rightarrow> UIManager \<Rightarrow> UIManager" where
  "showAlertMessage message type ui =
     ui\<lparr>alertMessage := Some (message, type), alert_shown := True,
        hide_timers := Suc (hide_timers ui)\<rparr>"

text \<open>\<open>r1\<close> and \<open>r2\<close> are the random strings \<open>addTodo\<close> draws when it is called.\<close>

definition handleAddTodo :: "jsstring \<Rightarrow> jsstring \<Rightarrow> UIManager \<Rightarrow> UIManager" where
  "handleAddTodo r1 r2 ui =
     (let tsk = taskInput ui; due = dateInput ui
      in if tsk = [] then showAlertMessage (lit ''Please enter a task'') (lit ''error'') ui
         else
           (let (newTodo, m) = addTodo tsk (Some due) r1 r2 (todoManager ui);
                ui1 = showAllTodos (ui\<lparr>todoManager := m\<rparr>);
                ui2 = ui1\<lparr>taskInput := []\<rparr>;
                ui3 = ui2\<lparr>dateInput := []\<rparr>
            in showAlertMessage (lit ''Task added successfully'') (lit ''success'') ui3))"

section \<open>Example states\<close>

text \<open>A browser profile in which nothing has been stored, the store constructed
  from it, and that store after one task has been added with both random numbers
  0.5.\<close>

definition empty_storage :: local_storage where
  "empty_storage = \<lparr>items = Map.empty, setItem_calls = []\<rparr>"

definition empty_store :: store where
  "empty_store = \<lparr>todos = [], localStorage = empty_storage\<rparr>"

definition milk :: todo where
  "milk = \<lparr>id' = lit ''ii'', task = lit ''Buy milk'', dueDate = lit ''2024-01-01'',
           completed = False, status = lit ''pending''\<rparr>"

definition milk_store :: store where
  "milk_store =
     snd (addTodo (lit ''Buy milk'') (Some (lit ''2024-01-01'')) (lit ''0.i'') (lit ''0.i'')
            empty_store)"

text \<open>The page once the \<open>UIManager\<close> has been constructed over the empty store and
  the two inputs hold the given values.\<close>

definition fresh_page :: "jsstring \<Rightarrow> jsstring \<Rightarrow> UIManager" where
  "fresh_page tsk due =
     \<lparr>todoManager = empty_store, taskInput = tsk, dateInput = due,
      todosListBody = NoTaskFound, alertMessage = None, alert_shown = False,
      hide_timers = 0\<rparr>"

text \<open>A session in which every \<open>Add\<close> draws an id that no record of the collection has
  at that moment.\<close>

fun draws_fresh :: "store \<Rightarrow> operation list \<Rightarrow> bool" where
  "draws_fresh s [] = True"
| "draws_fresh s (Add tsk due r1 r2 # ops) =
     (getRandomId r1 r2 \<notin> id' ` set (todos s) \<and>
      draws_fresh (perform s (Add tsk due r1 r2)) ops)"
| "draws_fresh s (opn # ops) = draws_fresh (perform s opn) ops"

section \<open>Formatter\<close>

lemma slice_prefix: "slice s 0 n = take n s"
  by (simp add: slice_def Let_def min_def)

lemma length_ellipsis: "length (lit ''...'') = 3"
  by (simp add: lit_def)

lemma formatTask_long: "14 < length x \<Longrightarrow> formatTask x = take 14 x @ lit ''...''"
  by (simp add: formatTask_def slice_prefix)

lemma formatTask_short: "length x \<le> 14 \<Longrightarrow> formatTask x = x"
  by (simp add: formatTask_def)

lemma formatTask_idem: "formatTask (formatTask x) = formatTask x"
proof (cases "14 < length x")
  case True
  then have "formatTask x = take 14 x @ lit ''...''" by (rule formatTask_long)
  moreover from True have "14 < length (take 14 x @ lit ''...'')"
    by (simp add: length_ellipsis)
  moreover from True have "take 14 (take 14 x @ lit ''...'') = take 14 x" by simp
  ultimately show ?thesis by (simp add: formatTask_long)
next
  case False
  then show ?thesis by (simp add: formatTask_short)
qed

text \<open>
  Claim C10: \<open>formatTask\<close> is idempotent on every string, whatever its length. The
  task text \<open>addTodo\<close> stores is \<open>formatTask\<close> of its argument, so the cell that the
  render path computes for the new record, by formatting the stored text again,
  is the stored text itself.
\<close>

theorem formatTask_idempotent_on_all_inputs:
  "formatTask (formatTask x) = formatTask x \<and>
   task (fst (addTodo x due r1 r2 s)) = formatTask x \<and>
   task_cell (render_row (fst (addTodo x due r1 r2 s))) = task (fst (addTodo x due r1 r2 s))"
  by (simp add: formatTask_idem addTodo_def Let_def render_row_def)

text \<open>
  Claim C3, as the specification states it, fails: the first 14 code units of the
  text are \<open>This is a very\<close>, not \<open>This is a ver\<close>, so the stored task is not
  \<open>This is a ver...\<close>.
\<close>

theorem addTodo_long_task_counterexample:
  "task (fst (addTodo (lit ''This is a very long task description'') None (lit ''0.i'') (lit ''0.i'')
      \<lparr>todos = [], localStorage = \<lparr>items = Map.empty, setItem_calls = []\<rparr>\<rparr>))
   \<noteq> lit ''This is a ver...''"
  by (simp add: addTodo_def Let_def formatTask_def slice_def lit_def)

text \<open>
  Claim C3, amended: adding the task text \<open>This is a very long task description\<close>
  appends a record whose task field is \<open>This is a very...\<close>, the first 14 code units
  of the text followed by the three-character ellipsis, whatever the due date, the
  random strings and the store.
\<close>

theorem addTodo_long_task_truncated:
  "task (fst (addTodo (lit ''This is a very long task description'') due r1 r2 s))
     = lit ''This is a very...'' \<and>
   lit ''This is a very...'' = take 14 (lit ''This is a very long task description'') @ lit ''...'' \<and>
   todos (snd (addTodo (lit ''This is a very long task description'') due r1 r2 s))
     = todos s @ [fst (addTodo (lit ''This is a very long task description'') due r1 r2 s)]"
  by (simp add: addTodo_def Let_def formatTask_def slice_def lit_def saveToLocalStorage_def)

section \<open>Construction\<close>

lemma JSON_parse_null: "JSON_parse (lit ''null'') = Inr JNull"
  by (simp add: lit_def JSON_parse_def parse_step_def is_ws_def is_digit_def)

lemma constructor_absent:
  "getItem ls todos_key = None \<Longrightarrow>
   TodoManager_constructor ls = Constructed \<lparr>todos = [], localStorage = ls\<rparr>"
  by (simp add: TodoManager_constructor_def JSON_parse_null as_collection_def)

lemma constructor_malformed:
  "getItem ls todos_key = Some text \<Longrightarrow> JSON_parse text = Inl e \<Longrightarrow>
   TodoManager_constructor ls = Throws e"
  by (simp add: TodoManager_constructor_def)

text \<open>
  Claim C1, as the specification states it, fails for malformed JSON: with the text
  \<open>{\<close> stored under the key, \<open>JSON.parse\<close> throws a \<open>SyntaxError\<close>, the constructor
  does not catch it, and no store with an empty collection is constructed.
\<close>

theorem constructor_malformed_counterexample:
  "getItem \<lparr>items = [todos_key \<mapsto> lit ''{''], setItem_calls = []\<rparr> todos_key = Some (lit ''{'') \<and>
   JSON_parse (lit ''{'') = Inl SyntaxError \<and>
   TodoManager_constructor \<lparr>items = [todos_key \<mapsto> lit ''{''], setItem_calls = []\<rparr>
     = Throws SyntaxError \<and>
   TodoManager_constructor \<lparr>items = [todos_key \<mapsto> lit ''{''], setItem_calls = []\<rparr>
     \<noteq> Constructed \<lparr>todos = [],
          localStorage = \<lparr>items = [todos_key \<mapsto> lit ''{''], setItem_calls = []\<rparr>\<rparr>"
  by (simp add: TodoManager_constructor_def getItem_def lit_def JSON_parse_def parse_step_def
      is_ws_def is_digit_def)

text \<open>
  Claim C1, amended: when the key is absent, construction does not fail and the
  constructed store's collection is empty; when the stored string fails to parse,
  construction fails with the error \<open>JSON.parse\<close> throws.
\<close>

theorem constructor_absent_or_malformed:
  "(getItem ls todos_key = None \<longrightarrow>
      TodoManager_constructor ls = Constructed \<lparr>todos = [], localStorage = ls\<rparr>) \<and>
   (getItem ls todos_key = Some text \<and> JSON_parse text = Inl e \<longrightarrow>
      TodoManager_constructor ls = Throws e)"
  by (simp add: constructor_absent constructor_malformed)

theorem constructor_absent_or_malformed_witness:
  "getItem empty_storage todos_key = None \<and>
   TodoManager_constructor empty_storage = Constructed \<lparr>todos = [], localStorage = empty_storage\<rparr> \<and>
   getItem \<lparr>items = [todos_key \<mapsto> lit ''[1,''], setItem_calls = []\<rparr> todos_key = Some (lit ''[1,'') \<and>
   JSON_parse (lit ''[1,'') = Inl SyntaxError \<and>
   TodoManager_constructor \<lparr>items = [todos_key \<mapsto> lit ''[1,''], setItem_calls = []\<rparr>
     = Throws SyntaxError"
proof -
  have a: "getItem empty_storage todos_key = None"
    by (simp add: getItem_def empty_storage_def)
  have b: "getItem \<lparr>items = [todos_key \<mapsto> lit ''[1,''], setItem_calls = []\<rparr> todos_key
             = Some (lit ''[1,'')"
    by (simp add: getItem_def)
  have c: "JSON_parse (lit ''[1,'') = Inl SyntaxError"
    by (simp add: lit_def JSON_parse_def parse_step_def is_ws_def is_digit_def lex_number_def
        lex_sign_def lex_int_def lex_frac_def lex_exp_def digits_value_def)
  from a b c
    constructor_absent_or_malformed [of empty_storage]
    constructor_absent_or_malformed
      [of "\<lparr>items = [todos_key \<mapsto> lit ''[1,''], setItem_calls = []\<rparr>" "lit ''[1,''" SyntaxError]
  show ?thesis by simp
qed

section \<open>Lookup by id\<close>

lemma findIndex_None_iff: "findIndex P xs = None \<longleftrightarrow> (\<forall>x\<in>set xs. \<not> P x)"
  by (induction xs) auto

lemma findIndex_Some:
  "findIndex P xs = Some n \<Longrightarrow> n < length xs \<and> P (xs ! n) \<and> (\<forall>k<n. \<not> P (xs ! k))"
proof (induction xs arbitrary: n)
  case Nil
  then show ?case by simp
next
  case (Cons x xs)
  show ?case
  proof (cases "P x")
    case True
    with Cons.prems show ?thesis by simp
  next
    case False
    with Cons.prems obtain m where m: "findIndex P xs = Some m" and n: "n = Suc m"
      by auto
    from Cons.IH [OF m] False n show ?thesis
      by (auto simp: nth_Cons split: nat.splits)
  qed
qed

lemma findIndex_same_keys:
  "map f xs = map f ys \<Longrightarrow> findIndex (\<lambda>t. f t = i) xs = findIndex (\<lambda>t. f t = i) ys"
proof (induction xs arbitrary: ys)
  case Nil
  then show ?case by simp
next
  case (Cons x xs)
  then obtain y ys' where "ys = y # ys'" "f x = f y" "map f xs = map f ys'"
    by (cases ys) auto
  with Cons.IH [of ys'] show ?case by simp
qed

lemma findIndex_present:
  "i \<in> f ` set xs \<Longrightarrow> \<exists>n. findIndex (\<lambda>t. f t = i) xs = Some n"
  using findIndex_None_iff [of "\<lambda>t. f t = i" xs] by (cases "findIndex (\<lambda>t. f t = i) xs") auto

lemma findIndex_absent:
  "i \<notin> f ` set xs \<Longrightarrow> findIndex (\<lambda>t. f t = i) xs = None"
  using findIndex_None_iff [of "\<lambda>t. f t = i" xs] by auto

section \<open>Persistence\<close>

lemma saveToLocalStorage_todos: "todos (saveToLocalStorage s) = todos s"
  by (simp add: saveToLocalStorage_def)

lemma saveToLocalStorage_item:
  "getItem (localStorage (saveToLocalStorage s)) todos_key = Some (JSON_stringify (todos s))"
  by (simp add: saveToLocalStorage_def setItem_def getItem_def)

lemma saveToLocalStorage_calls:
  "setItem_calls (localStorage (saveToLocalStorage s))
     = setItem_calls (localStorage s) @ [(todos_key, JSON_stringify (todos s))]"
  by (simp add: saveToLocalStorage_def setItem_def)

lemma saveToLocalStorage_items:
  "items (localStorage (saveToLocalStorage s))
     = (items (localStorage s))(todos_key \<mapsto> JSON_stringify (todos s))"
  by (simp add: saveToLocalStorage_def setItem_def)

section \<open>Filtering\<close>

lemma lit_criteria_distinct:
  "lit ''all'' \<noteq> lit ''pending''" "lit ''all'' \<noteq> lit ''completed''"
  "lit ''pending'' \<noteq> lit ''completed''" "lit ''pending'' \<noteq> lit ''all''"
  "lit ''completed'' \<noteq> lit ''all''" "lit ''completed'' \<noteq> lit ''pending''"
  by (simp_all add: lit_def)

text \<open>
  Claim C4: in every state of the store, \<open>filterTodos\<close> with \<open>all\<close> returns the
  collection as it is (so in insertion order), with \<open>pending\<close> the records whose
  \<open>completed\<close> is false and with \<open>completed\<close> those whose \<open>completed\<close> is true, each in
  the order of the collection; the two results share no record, hold together
  exactly the records of the collection, and their lengths add up to its length;
  any other criterion gives the empty list.
\<close>

theorem filterTodos_partition:
  "filterTodos (lit ''all'') s = todos s \<and>
   filterTodos (lit ''pending'') s = filter (\<lambda>t. completed t = False) (todos s) \<and>
   filterTodos (lit ''completed'') s = filter (\<lambda>t. completed t = True) (todos s) \<and>
   set (filterTodos (lit ''pending'') s) \<inter> set (filterTodos (lit ''completed'') s) = {} \<and>
   set (filterTodos (lit ''pending'') s) \<union> set (filterTodos (lit ''completed'') s)
     = set (filterTodos (lit ''all'') s) \<and>
   length (filterTodos (lit ''pending'') s) + length (filterTodos (lit ''completed'') s)
     = length (filterTodos (lit ''all'') s) \<and>
   (c \<noteq> lit ''all'' \<and> c \<noteq> lit ''pending'' \<and> c \<noteq> lit ''completed'' \<longrightarrow> filterTodos c s = [])"
proof -
  have "length (filter (\<lambda>t. \<not> completed t) (todos s)) + length (filter completed (todos s))
          = length (todos s)"
    using sum_length_filter_compl [of completed "todos s"] by simp
  then show ?thesis
    by (auto simp: filterTodos_def lit_criteria_distinct)
qed

theorem filterTodos_partition_witness:
  "lit ''done'' \<noteq> lit ''all'' \<and> lit ''done'' \<noteq> lit ''pending'' \<and> lit ''done'' \<noteq> lit ''completed'' \<and>
   filterTodos (lit ''done'')
     \<lparr>todos = [\<lparr>id' = lit ''ii'', task = lit ''Buy milk'', dueDate = lit ''2024-01-01'',
                 completed = True, status = lit ''pending''\<rparr>],
      localStorage = empty_storage\<rparr> = []"
proof -
  have h: "lit ''done'' \<noteq> lit ''all'' \<and> lit ''done'' \<noteq> lit ''pending'' \<and> lit ''done'' \<noteq> lit ''completed''"
    by (simp add: lit_def)
  with filterTodos_partition
         [of "\<lparr>todos = [\<lparr>id' = lit ''ii'', task = lit ''Buy milk'', dueDate = lit ''2024-01-01'',
                 completed = True, status = lit ''pending''\<rparr>],
               localStorage = empty_storage\<rparr>" "lit ''done''"]
  show ?thesis by simp
qed

section \<open>Editing\<close>

text \<open>
  Claim C5: when a record with the id is in the collection, \<open>editTodo\<close> replaces the
  task of the first such record by the replacement text as given (not formatted),
  leaves every other position as it was, writes the serialised collection under the
  key, and returns the changed record; when no record has the id, it returns the
  not-found value and the store, its \<open>setItem\<close> calls included, is unchanged.
\<close>

theorem editTodo_found_or_not_found:
  "(i \<in> id' ` set (todos s) \<longrightarrow>
      (\<exists>n. n < length (todos s) \<and> id' (todos s ! n) = i \<and> (\<forall>k<n. id' (todos s ! k) \<noteq> i) \<and>
         fst (editTodo i x s) = Some ((todos s ! n)\<lparr>task := x\<rparr>) \<and>
         todos (snd (editTodo i x s)) = (todos s)[n := (todos s ! n)\<lparr>task := x\<rparr>] \<and>
         getItem (localStorage (snd (editTodo i x s))) todos_key
           = Some (JSON_stringify (todos (snd (editTodo i x s)))) \<and>
         setItem_calls (localStorage (snd (editTodo i x s)))
           = setItem_calls (localStorage s) @
             [(todos_key, JSON_stringify (todos (snd (editTodo i x s))))])) \<and>
   (i \<notin> id' ` set (todos s) \<longrightarrow> editTodo i x s = (None, s))"
proof (intro conjI impI)
  assume a: "i \<in> id' ` set (todos s)"
  from findIndex_present [OF a] obtain n where n: "findIndex (\<lambda>t. id' t = i) (todos s) = Some n" ..
  note f = findIndex_Some [OF n]
  define t where "t = (todos s ! n)\<lparr>task := x\<rparr>"
  define s' where "s' = saveToLocalStorage (s\<lparr>todos := (todos s)[n := t]\<rparr>)"
  have e: "editTodo i x s = (Some t, s')"
    unfolding editTodo_def n t_def s'_def by (simp add: Let_def)
  have t': "todos s' = (todos s)[n := t]"
    unfolding s'_def by (simp add: saveToLocalStorage_todos)
  have g: "getItem (localStorage s') todos_key = Some (JSON_stringify (todos s'))"
    unfolding s'_def by (simp add: saveToLocalStorage_item saveToLocalStorage_todos)
  have c: "setItem_calls (localStorage s')
             = setItem_calls (localStorage s) @ [(todos_key, JSON_stringify (todos s'))]"
    unfolding s'_def by (simp add: saveToLocalStorage_calls saveToLocalStorage_todos)
  from f e t' g c have
    "n < length (todos s) \<and> id' (todos s ! n) = i \<and> (\<forall>k<n. id' (todos s ! k) \<noteq> i) \<and>
     fst (editTodo i x s) = Some ((todos s ! n)\<lparr>task := x\<rparr>) \<and>
     todos (snd (editTodo i x s)) = (todos s)[n := (todos s ! n)\<lparr>task := x\<rparr>] \<and>
     getItem (localStorage (snd (editTodo i x s))) todos_key
       = Some (JSON_stringify (todos (snd (editTodo i x s)))) \<and>
     setItem_calls (localStorage (snd (editTodo i x s)))
       = setItem_calls (localStorage s) @
         [(todos_key, JSON_stringify (todos (snd (editTodo i x s))))]"
    unfolding t_def by simp
  then show "\<exists>n. n < length (todos s) \<and> id' (todos s ! n) = i \<and> (\<forall>k<n. id' (todos s ! k) \<noteq> i) \<and>
         fst (editTodo i x s) = Some ((todos s ! n)\<lparr>task := x\<rparr>) \<and>
         todos (snd (editTodo i x s)) = (todos s)[n := (todos s ! n)\<lparr>task := x\<rparr>] \<and>
         getItem (localStorage (snd (editTodo i x s))) todos_key
           = Some (JSON_stringify (todos (snd (editTodo i x s)))) \<and>
         setItem_calls (localStorage (snd (editTodo i x s)))
           = setItem_calls (localStorage s) @
             [(todos_key, JSON_stringify (todos (snd (editTodo i x s))))]"
    by (rule exI)
next
  assume "i \<notin> id' ` set (todos s)"
  then have "findIndex (\<lambda>t. id' t = i) (todos s) = None" by (rule findIndex_absent)
  then show "editTodo i x s = (None, s)" by (simp add: editTodo_def)
qed

lemma milk_store_todos: "todos milk_store = [milk]"
  by (simp add: milk_store_def milk_def addTodo_def Let_def empty_store_def
      saveToLocalStorage_todos getRandomId_def substring_def formatTask_def formatDueDate_def
      lit_def)

lemma milk_id: "id' milk = lit ''ii''"
  by (simp add: milk_def)

theorem editTodo_found_or_not_found_witness:
  "lit ''ii'' \<in> id' ` set (todos milk_store) \<and>
   fst (editTodo (lit ''ii'') (lit ''Buy oat milk and bread'') milk_store)
     = Some (milk\<lparr>task := lit ''Buy oat milk and bread''\<rparr>) \<and>
   todos (snd (editTodo (lit ''ii'') (lit ''Buy oat milk and bread'') milk_store))
     = [milk\<lparr>task := lit ''Buy oat milk and bread''\<rparr>] \<and>
   lit ''zz'' \<notin> id' ` set (todos milk_store) \<and>
   editTodo (lit ''zz'') (lit ''Buy oat milk and bread'') milk_store = (None, milk_store)"
proof -
  have p: "lit ''ii'' \<in> id' ` set (todos milk_store)"
    by (simp add: milk_store_todos milk_id)
  have a: "lit ''zz'' \<notin> id' ` set (todos milk_store)"
    by (simp add: milk_store_todos milk_id) (simp add: lit_def)
  from editTodo_found_or_not_found [of "lit ''ii''" milk_store "lit ''Buy oat milk and bread''"] p
  obtain n where n: "n < length (todos milk_store)"
    and r: "fst (editTodo (lit ''ii'') (lit ''Buy oat milk and bread'') milk_store)
              = Some ((todos milk_store ! n)\<lparr>task := lit ''Buy oat milk and bread''\<rparr>)"
    and t: "todos (snd (editTodo (lit ''ii'') (lit ''Buy oat milk and bread'') milk_store))
              = (todos milk_store)[n := (todos milk_store ! n)\<lparr>task := lit ''Buy oat milk and bread''\<rparr>]"
    by blast
  from n have "n = 0" by (simp add: milk_store_todos)
  with r t have
    "fst (editTodo (lit ''ii'') (lit ''Buy oat milk and bread'') milk_store)
       = Some (milk\<lparr>task := lit ''Buy oat milk and bread''\<rparr>)"
    "todos (snd (editTodo (lit ''ii'') (lit ''Buy oat milk and bread'') milk_store))
       = [milk\<lparr>task := lit ''Buy oat milk and bread''\<rparr>]"
    by (simp_all add: milk_store_todos)
  moreover from editTodo_found_or_not_found [of "lit ''zz''" milk_store "lit ''Buy oat milk and bread''"] a
  have "editTodo (lit ''zz'') (lit ''Buy oat milk and bread'') milk_store = (None, milk_store)"
    by blast
  ultimately show ?thesis using p a by blast
qed

section \<open>Toggling\<close>

lemma toggleTodoStatus_found:
  "findIndex (\<lambda>t. id' t = i) (todos s) = Some n \<Longrightarrow>
   todos (toggleTodoStatus i s)
     = (todos s)[n := (todos s ! n)\<lparr>completed := \<not> completed (todos s ! n)\<rparr>]"
  by (simp add: toggleTodoStatus_def Let_def saveToLocalStorage_todos)

lemma toggleTodoStatus_not_found:
  "findIndex (\<lambda>t. id' t = i) (todos s) = None \<Longrightarrow> toggleTodoStatus i s = s"
  by (simp add: toggleTodoStatus_def)

lemma map_update_same:
  "f y = f (xs ! n) \<Longrightarrow> map f (xs[n := y]) = map f xs"
  by (cases "n < length xs") (simp_all add: map_update list_update_same_conv list_update_beyond not_less)

lemma toggleTodoStatus_ids: "map id' (todos (toggleTodoStatus i s)) = map id' (todos s)"
proof (cases "findIndex (\<lambda>t. id' t = i) (todos s)")
  case None
  then show ?thesis by (simp add: toggleTodoStatus_not_found)
next
  case (Some n)
  then show ?thesis by (simp add: toggleTodoStatus_found map_update_same)
qed

lemma toggleTodoStatus_twice_todos:
  "todos (toggleTodoStatus i (toggleTodoStatus i s)) = todos s"
proof (cases "findIndex (\<lambda>t. id' t = i) (todos s)")
  case None
  then show ?thesis by (simp add: toggleTodoStatus_not_found)
next
  case (Some n)
  have "findIndex (\<lambda>t. id' t = i) (todos (toggleTodoStatus i s)) = Some n"
    using findIndex_same_keys [OF toggleTodoStatus_ids, of i i s] Some by simp
  then have "todos (toggleTodoStatus i (toggleTodoStatus i s))
      = (todos (toggleTodoStatus i s))
          [n := (todos (toggleTodoStatus i s) ! n)
                  \<lparr>completed := \<not> completed (todos (toggleTodoStatus i s) ! n)\<rparr>]"
    by (rule toggleTodoStatus_found)
  moreover note toggleTodoStatus_found [OF Some]
  moreover from findIndex_Some [OF Some] have "n < length (todos s)" by simp
  ultimately show ?thesis by (simp add: list_update_same_conv)
qed

text \<open>
  Claim C6: when a record with the id is in the collection, one \<open>toggleTodoStatus\<close>
  negates the \<open>completed\<close> field of the first such record and a second one restores
  it: after the two calls the collection, and with it every \<open>completed\<close> value, is
  what it was. When no record has the id, the call changes nothing and makes no
  \<open>setItem\<close> call.
\<close>

theorem toggleTodoStatus_involution:
  "(i \<in> id' ` set (todos s) \<longrightarrow>
      (\<exists>n. n < length (todos s) \<and> id' (todos s ! n) = i \<and>
           completed (todos (toggleTodoStatus i s) ! n) = (\<not> completed (todos s ! n)) \<and>
           completed (todos (toggleTodoStatus i (toggleTodoStatus i s)) ! n)
             = completed (todos s ! n)) \<and>
      todos (toggleTodoStatus i (toggleTodoStatus i s)) = todos s) \<and>
   (i \<notin> id' ` set (todos s) \<longrightarrow>
      toggleTodoStatus i s = s \<and>
      setItem_calls (localStorage (toggleTodoStatus i s)) = setItem_calls (localStorage s))"
proof (intro conjI impI)
  assume a: "i \<in> id' ` set (todos s)"
  from findIndex_present [OF a] obtain n where n: "findIndex (\<lambda>t. id' t = i) (todos s) = Some n" ..
  from findIndex_Some [OF n] have "n < length (todos s)" "id' (todos s ! n) = i" by simp_all
  then have
    "n < length (todos s) \<and> id' (todos s ! n) = i \<and>
     completed (todos (toggleTodoStatus i s) ! n) = (\<not> completed (todos s ! n)) \<and>
     completed (todos (toggleTodoStatus i (toggleTodoStatus i s)) ! n) = completed (todos s ! n)"
    by (simp add: toggleTodoStatus_found [OF n] toggleTodoStatus_twice_todos)
  then show "\<exists>n. n < length (todos s) \<and> id' (todos s ! n) = i \<and>
           completed (todos (toggleTodoStatus i s) ! n) = (\<not> completed (todos s ! n)) \<and>
           completed (todos (toggleTodoStatus i (toggleTodoStatus i s)) ! n)
             = completed (todos s ! n)"
    by (rule exI)
next
  show "todos (toggleTodoStatus i (toggleTodoStatus i s)) = todos s"
    by (rule toggleTodoStatus_twice_todos)
next
  assume "i \<notin> id' ` set (todos s)"
  then have "findIndex (\<lambda>t. id' t = i) (todos s) = None" by (rule findIndex_absent)
  then show "toggleTodoStatus i s = s" by (rule toggleTodoStatus_not_found)
  then show "setItem_calls (localStorage (toggleTodoStatus i s)) = setItem_calls (localStorage s)"
    by simp
qed

theorem toggleTodoStatus_involution_witness:
  "lit ''ii'' \<in> id' ` set (todos milk_store) \<and>
   completed (todos (toggleTodoStatus (lit ''ii'') milk_store) ! 0) = (\<not> completed (todos milk_store ! 0)) \<and>
   todos (toggleTodoStatus (lit ''ii'') (toggleTodoStatus (lit ''ii'') milk_store)) = [milk] \<and>
   lit ''zz'' \<notin> id' ` set (todos milk_store) \<and>
   toggleTodoStatus (lit ''zz'') milk_store = milk_store"
proof -
  have p: "lit ''ii'' \<in> id' ` set (todos milk_store)"
    by (simp add: milk_store_todos milk_id)
  have a: "lit ''zz'' \<notin> id' ` set (todos milk_store)"
    by (simp add: milk_store_todos milk_id) (simp add: lit_def)
  from toggleTodoStatus_involution [of "lit ''ii''" milk_store] p
  obtain n where n: "n < length (todos milk_store)"
    and c: "completed (todos (toggleTodoStatus (lit ''ii'') milk_store) ! n)
              = (\<not> completed (todos milk_store ! n))"
    and t: "todos (toggleTodoStatus (lit ''ii'') (toggleTodoStatus (lit ''ii'') milk_store))
              = todos milk_store"
    by blast
  from n have "n = 0" by (simp add: milk_store_todos)
  moreover from toggleTodoStatus_involution [of "lit ''zz''" milk_store] a
  have "toggleTodoStatus (lit ''zz'') milk_store = milk_store" by blast
  ultimately show ?thesis using p a c t by (simp add: milk_store_todos)
qed

section \<open>Deleting\<close>

text \<open>
  Claim C8: \<open>deleteTodo\<close> keeps exactly the records whose id differs from the given
  one, in their order, so no record with the id remains; when no record has the id
  the collection stays as it is; in both cases the serialised collection is written
  under the key; and a second \<open>deleteTodo\<close> with the same id leaves the collection
  and the stored items as the first one left them.
\<close>

theorem deleteTodo_idempotent:
  "todos (deleteTodo i s) = filter (\<lambda>t. id' t \<noteq> i) (todos s) \<and>
   i \<notin> id' ` set (todos (deleteTodo i s)) \<and>
   (i \<notin> id' ` set (todos s) \<longrightarrow> todos (deleteTodo i s) = todos s) \<and>
   getItem (localStorage (deleteTodo i s)) todos_key
     = Some (JSON_stringify (todos (deleteTodo i s))) \<and>
   setItem_calls (localStorage (deleteTodo i s))
     = setItem_calls (localStorage s) @ [(todos_key, JSON_stringify (todos (deleteTodo i s)))] \<and>
   todos (deleteTodo i (deleteTodo i s)) = todos (deleteTodo i s) \<and>
   items (localStorage (deleteTodo i (deleteTodo i s))) = items (localStorage (deleteTodo i s))"
proof -
  have t: "todos (deleteTodo i s) = filter (\<lambda>t. id' t \<noteq> i) (todos s)" for s
    by (simp add: deleteTodo_def saveToLocalStorage_todos)
  have g: "getItem (localStorage (deleteTodo i s)) todos_key
             = Some (JSON_stringify (todos (deleteTodo i s)))"
    by (simp add: deleteTodo_def saveToLocalStorage_item saveToLocalStorage_todos)
  have c: "setItem_calls (localStorage (deleteTodo i s))
     = setItem_calls (localStorage s) @ [(todos_key, JSON_stringify (todos (deleteTodo i s)))]"
    by (simp add: deleteTodo_def saveToLocalStorage_calls saveToLocalStorage_todos)
  have m: "items (localStorage (deleteTodo i s))
             = (items (localStorage s))(todos_key \<mapsto> JSON_stringify (todos (deleteTodo i s)))" for s
    by (simp add: deleteTodo_def saveToLocalStorage_items saveToLocalStorage_todos)
  have tt: "todos (deleteTodo i (deleteTodo i s)) = todos (deleteTodo i s)"
    by (simp add: t)
  have n: "i \<notin> id' ` set (todos s) \<Longrightarrow> todos (deleteTodo i s) = todos s"
    by (simp add: t filter_id_conv) blast
  have "items (localStorage (deleteTodo i (deleteTodo i s))) = items (localStorage (deleteTodo i s))"
    by (simp add: m [of "deleteTodo i s"] tt) (simp add: m [of s])
  with t g c tt n show ?thesis by auto
qed

theorem deleteTodo_idempotent_witness:
  "lit ''zz'' \<notin> id' ` set (todos milk_store) \<and>
   todos (deleteTodo (lit ''zz'') milk_store) = [milk] \<and>
   length (setItem_calls (localStorage (deleteTodo (lit ''zz'') milk_store)))
     = Suc (length (setItem_calls (localStorage milk_store)))"
proof -
  have a: "lit ''zz'' \<notin> id' ` set (todos milk_store)"
    by (simp add: milk_store_todos milk_id) (simp add: lit_def)
  from deleteTodo_idempotent [of "lit ''zz''" milk_store] a
  have "todos (deleteTodo (lit ''zz'') milk_store) = todos milk_store"
    and "setItem_calls (localStorage (deleteTodo (lit ''zz'') milk_store))
     = setItem_calls (localStorage milk_store) @
       [(todos_key, JSON_stringify (todos (deleteTodo (lit ''zz'') milk_store)))]"
    by blast+
  with a show ?thesis by (simp add: milk_store_todos)
qed

section \<open>The add-task trigger\<close>

text \<open>
  Claim C9: when the task input is the empty string, \<open>handleAddTodo\<close> shows the
  alert \<open>Please enter a task\<close> of type \<open>error\<close> and leaves the store (the collection
  and \<open>localStorage\<close>) and both inputs as they were; when it is not empty, the store
  becomes what \<open>addTodo\<close> makes of it for the two input values, and both inputs are
  cleared.
\<close>

theorem handleAddTodo_empty_or_not:
  "(taskInput ui = [] \<longrightarrow>
      todoManager (handleAddTodo r1 r2 ui) = todoManager ui \<and>
      alertMessage (handleAddTodo r1 r2 ui) = Some (lit ''Please enter a task'', lit ''error'') \<and>
      alert_shown (handleAddTodo r1 r2 ui) \<and>
      taskInput (handleAddTodo r1 r2 ui) = taskInput ui \<and>
      dateInput (handleAddTodo r1 r2 ui) = dateInput ui) \<and>
   (taskInput ui \<noteq> [] \<longrightarrow>
      todoManager (handleAddTodo r1 r2 ui)
        = snd (addTodo (taskInput ui) (Some (dateInput ui)) r1 r2 (todoManager ui)) \<and>
      taskInput (handleAddTodo r1 r2 ui) = [] \<and>
      dateInput (handleAddTodo r1 r2 ui) = [])"
  by (simp add: handleAddTodo_def Let_def showAlertMessage_def showAllTodos_def displayTodos_def
      split: prod.split)

theorem handleAddTodo_empty_or_not_witness:
  "taskInput (fresh_page [] (lit ''2024-01-01'')) = [] \<and>
   todoManager (handleAddTodo (lit ''0.i'') (lit ''0.i'') (fresh_page [] (lit ''2024-01-01'')))
     = empty_store \<and>
   alertMessage (handleAddTodo (lit ''0.i'') (lit ''0.i'') (fresh_page [] (lit ''2024-01-01'')))
     = Some (lit ''Please enter a task'', lit ''error'') \<and>
   taskInput (fresh_page (lit ''Buy milk'') (lit ''2024-01-01'')) \<noteq> [] \<and>
   todos (todoManager (handleAddTodo (lit ''0.i'') (lit ''0.i'')
            (fresh_page (lit ''Buy milk'') (lit ''2024-01-01'')))) = [milk] \<and>
   taskInput (handleAddTodo (lit ''0.i'') (lit ''0.i'')
            (fresh_page (lit ''Buy milk'') (lit ''2024-01-01''))) = [] \<and>
   dateInput (handleAddTodo (lit ''0.i'') (lit ''0.i'')
            (fresh_page (lit ''Buy milk'') (lit ''2024-01-01''))) = []"
proof -
  have e: "taskInput (fresh_page [] (lit ''2024-01-01'')) = []"
    by (simp add: fresh_page_def)
  have n: "taskInput (fresh_page (lit ''Buy milk'') (lit ''2024-01-01'')) \<noteq> []"
    by (simp add: fresh_page_def lit_def)
  have m: "snd (addTodo (taskInput (fresh_page (lit ''Buy milk'') (lit ''2024-01-01'')))
                  (Some (dateInput (fresh_page (lit ''Buy milk'') (lit ''2024-01-01''))))
                  (lit ''0.i'') (lit ''0.i'')
                  (todoManager (fresh_page (lit ''Buy milk'') (lit ''2024-01-01'')))) = milk_store"
    by (simp add: fresh_page_def milk_store_def)
  have t: "todoManager (fresh_page [] (lit ''2024-01-01'')) = empty_store"
    by (simp add: fresh_page_def)
  from handleAddTodo_empty_or_not [of "fresh_page [] (lit ''2024-01-01'')" "lit ''0.i''" "lit ''0.i''"]
    handleAddTodo_empty_or_not
      [of "fresh_page (lit ''Buy milk'') (lit ''2024-01-01'')" "lit ''0.i''" "lit ''0.i''"]
    e n
  show ?thesis by (simp add: m t milk_store_todos)
qed

section \<open>Ids\<close>

lemma addTodo_todos:
  "todos (snd (addTodo tsk due r1 r2 s)) = todos s @ [fst (addTodo tsk due r1 r2 s)]"
  by (simp add: addTodo_def Let_def saveToLocalStorage_todos)

lemma addTodo_record:
  "fst (addTodo tsk due r1 r2 s)
     = \<lparr>id' = getRandomId r1 r2, task = formatTask tsk, dueDate = formatDueDate due,
        completed = False, status = lit ''pending''\<rparr>"
  by (simp add: addTodo_def Let_def)

lemma editTodo_todos:
  "todos (snd (editTodo i x s))
     = (case findIndex (\<lambda>t. id' t = i) (todos s) of
          None \<Rightarrow> todos s
        | Some n \<Rightarrow> (todos s)[n := (todos s ! n)\<lparr>task := x\<rparr>])"
  by (simp add: editTodo_def Let_def saveToLocalStorage_todos split: option.split)

lemma editTodo_ids: "map id' (todos (snd (editTodo i x s))) = map id' (todos s)"
  by (simp add: editTodo_todos map_update_same split: option.split)

lemma deleteTodo_todos: "todos (deleteTodo i s) = filter (\<lambda>t. id' t \<noteq> i) (todos s)"
  by (simp add: deleteTodo_def saveToLocalStorage_todos)

lemma clearAllTodos_todos: "todos (clearAllTodos s) = []"
  by (simp add: clearAllTodos_def saveToLocalStorage_todos)

lemma perform_distinct:
  assumes "distinct (map id' (todos s))" and "draws_fresh s [opn]"
  shows "distinct (map id' (todos (perform s opn)))"
proof (cases opn)
  case (Add tsk due r1 r2)
  with assms show ?thesis by (simp add: addTodo_todos addTodo_record)
next
  case (Edit i x)
  with assms show ?thesis by (simp add: editTodo_ids)
next
  case (Delete i)
  with assms show ?thesis by (simp add: deleteTodo_todos distinct_map_filter)
next
  case (Toggle i)
  with assms show ?thesis by (simp add: toggleTodoStatus_ids)
next
  case ClearAll
  then show ?thesis by (simp add: clearAllTodos_todos)
qed

lemma draws_fresh_Cons:
  "draws_fresh s (opn # ops) \<longleftrightarrow> draws_fresh s [opn] \<and> draws_fresh (perform s opn) ops"
  by (cases opn) simp_all

lemma run_distinct:
  "distinct (map id' (todos s)) \<Longrightarrow> draws_fresh s ops \<Longrightarrow> distinct (map id' (todos (run ops s)))"
proof (induction ops arbitrary: s)
  case Nil
  then show ?case by (simp add: run_def)
next
  case (Cons opn ops)
  from Cons.prems(2) have f: "draws_fresh s [opn]" and r: "draws_fresh (perform s opn) ops"
    using draws_fresh_Cons [of s opn ops] by simp_all
  from perform_distinct [OF Cons.prems(1) f] r
  have "distinct (map id' (todos (run ops (perform s opn))))" by (rule Cons.IH)
  then show ?case by (simp add: run_def)
qed

text \<open>
  Claim C2, as the specification states it, fails: \<open>addTodo\<close> does not compare the id
  it generates with the ids in the collection. In the store that holds one record
  added with both random numbers 0.5, a second add that draws 0.5 twice again
  generates the id \<open>ii\<close> of that record, and the ids of the collection are no longer
  pairwise distinct.
\<close>

theorem addTodo_same_draws_counterexample:
  "id' (fst (addTodo (lit ''Buy bread'') None (lit ''0.i'') (lit ''0.i'') milk_store))
     \<in> id' ` set (todos milk_store) \<and>
   \<not> distinct (map id' (todos (snd (addTodo (lit ''Buy bread'') None (lit ''0.i'') (lit ''0.i'')
                                      milk_store)))) \<and>
   snd (addTodo (lit ''Buy bread'') None (lit ''0.i'') (lit ''0.i'') milk_store)
     = run [Add (lit ''Buy milk'') (Some (lit ''2024-01-01'')) (lit ''0.i'') (lit ''0.i''),
            Add (lit ''Buy bread'') None (lit ''0.i'') (lit ''0.i'')] empty_store"
proof -
  have "id' (fst (addTodo (lit ''Buy bread'') None (lit ''0.i'') (lit ''0.i'') milk_store)) = lit ''ii''"
    by (simp add: addTodo_record getRandomId_def substring_def lit_def)
  then show ?thesis
    by (simp add: addTodo_todos milk_store_todos milk_id run_def) (simp add: milk_store_def)
qed

text \<open>
  Claim C2, amended: the id \<open>addTodo\<close> gives a new record is the concatenation of the
  two random fragments, whatever the collection holds; in every state reached from a
  state with pairwise distinct ids by operations in which each add drew an id that
  no record of the collection had at that moment, the ids are pairwise distinct.
\<close>

theorem ids_distinct_while_draws_fresh:
  "(distinct (map id' (todos s)) \<and> draws_fresh s ops \<longrightarrow>
      distinct (map id' (todos (run ops s)))) \<and>
   id' (fst (addTodo tsk due r1 r2 s)) = substring r1 2 15 @ substring r2 2 15"
  by (simp add: run_distinct addTodo_record getRandomId_def)

theorem ids_distinct_while_draws_fresh_witness:
  "distinct (map id' (todos empty_store)) \<and>
   draws_fresh empty_store
     [Add (lit ''Buy milk'') (Some (lit ''2024-01-01'')) (lit ''0.i'') (lit ''0.i''),
      Add (lit ''Buy bread'') None (lit ''0.j'') (lit ''0.i''),
      Toggle (lit ''ii''), Delete (lit ''ji'')] \<and>
   distinct (map id' (todos (run
     [Add (lit ''Buy milk'') (Some (lit ''2024-01-01'')) (lit ''0.i'') (lit ''0.i''),
      Add (lit ''Buy bread'') None (lit ''0.j'') (lit ''0.i''),
      Toggle (lit ''ii''), Delete (lit ''ji'')] empty_store)))"
proof -
  have d: "distinct (map id' (todos empty_store))"
    by (simp add: empty_store_def)
  have i1: "getRandomId (lit ''0.i'') (lit ''0.i'') = lit ''ii''"
    by (simp add: getRandomId_def substring_def lit_def)
  have i2: "getRandomId (lit ''0.j'') (lit ''0.i'') = lit ''ji''"
    by (simp add: getRandomId_def substring_def lit_def)
  have ne: "lit ''ji'' \<noteq> lit ''ii''"
    by (simp add: lit_def)
  have f: "draws_fresh empty_store
     [Add (lit ''Buy milk'') (Some (lit ''2024-01-01'')) (lit ''0.i'') (lit ''0.i''),
      Add (lit ''Buy bread'') None (lit ''0.j'') (lit ''0.i''),
      Toggle (lit ''ii''), Delete (lit ''ji'')]"
    by (simp add: addTodo_todos addTodo_record i1 i2 ne) (simp add: empty_store_def)
  from d f ids_distinct_while_draws_fresh [of empty_store
     "[Add (lit ''Buy milk'') (Some (lit ''2024-01-01'')) (lit ''0.i'') (lit ''0.i''),
      Add (lit ''Buy bread'') None (lit ''0.j'') (lit ''0.i''),
      Toggle (lit ''ii''), Delete (lit ''ji'')]"]
  show ?thesis by blast
qed

section \<open>The status field\<close>

lemma editTodo_statuses: "map status (todos (snd (editTodo i x s))) = map status (todos s)"
  by (simp add: editTodo_todos map_update_same split: option.split)

lemma toggleTodoStatus_todos:
  "todos (toggleTodoStatus i s)
     = (case findIndex (\<lambda>t. id' t = i) (todos s) of
          None \<Rightarrow> todos s
        | Some n \<Rightarrow> (todos s)[n := (todos s ! n)\<lparr>completed := \<not> completed (todos s ! n)\<rparr>])"
  by (simp add: toggleTodoStatus_found toggleTodoStatus_not_found split: option.split)

lemma toggleTodoStatus_statuses:
  "map status (todos (toggleTodoStatus i s)) = map status (todos s)"
  by (simp add: toggleTodoStatus_todos map_update_same split: option.split)

lemma toggleTodoStatus_tasks:
  "map task (todos (toggleTodoStatus i s)) = map task (todos s)"
  by (simp add: toggleTodoStatus_todos map_update_same split: option.split)

lemma toggleTodoStatus_dueDates:
  "map dueDate (todos (toggleTodoStatus i s)) = map dueDate (todos s)"
  by (simp add: toggleTodoStatus_todos map_update_same split: option.split)

lemma toggleTodoStatus_others:
  "findIndex (\<lambda>t. id' t = i) (todos s) \<noteq> Some k \<Longrightarrow>
   todos (toggleTodoStatus i s) ! k = todos s ! k"
  by (cases "findIndex (\<lambda>t. id' t = i) (todos s)") (auto simp: toggleTodoStatus_todos)

lemma all_status_map: "(\<forall>t\<in>set xs. status t = c) \<longleftrightarrow> set (map status xs) \<subseteq> {c}"
  by auto

lemma perform_status:
  assumes "\<forall>t\<in>set (todos s). status t = lit ''pending''"
  shows "\<forall>t\<in>set (todos (perform s opn)). status t = lit ''pending''"
proof (cases opn)
  case (Add tsk due r1 r2)
  with assms show ?thesis by (simp add: addTodo_todos addTodo_record)
next
  case (Edit i x)
  with assms show ?thesis
    unfolding all_status_map by (simp add: editTodo_statuses)
next
  case (Delete i)
  with assms show ?thesis by (simp add: deleteTodo_todos)
next
  case (Toggle i)
  with assms show ?thesis
    unfolding all_status_map by (simp add: toggleTodoStatus_statuses)
next
  case ClearAll
  then show ?thesis by (simp add: clearAllTodos_todos)
qed

lemma run_status:
  "\<forall>t\<in>set (todos s). status t = lit ''pending'' \<Longrightarrow>
   \<forall>t\<in>set (todos (run ops s)). status t = lit ''pending''"
proof (induction ops arbitrary: s)
  case Nil
  then show ?case by (simp add: run_def)
next
  case (Cons opn ops)
  from perform_status [OF Cons.prems]
  have "\<forall>t\<in>set (todos (run ops (perform s opn))). status t = lit ''pending''"
    by (rule Cons.IH)
  then show ?case by (simp add: run_def)
qed

text \<open>
  Claim C7: \<open>addTodo\<close> gives the new record the status \<open>pending\<close>, and no operation
  writes the field afterwards: \<open>editTodo\<close> and \<open>toggleTodoStatus\<close> leave the status at
  every position as it was, \<open>deleteTodo\<close> only removes records, and so every record
  of a store reached by any operations, from a store whose records all have the
  status \<open>pending\<close>, still has it. \<open>toggleTodoStatus\<close> leaves the id, task, due date
  and status at every position, and the whole record at every position but that of
  the matched record, as they were.
\<close>

theorem status_never_updated:
  "status (fst (addTodo tsk due r1 r2 s)) = lit ''pending'' \<and>
   todos (snd (addTodo tsk due r1 r2 s)) = todos s @ [fst (addTodo tsk due r1 r2 s)] \<and>
   map status (todos (snd (editTodo i x s))) = map status (todos s) \<and>
   set (todos (deleteTodo i s)) \<subseteq> set (todos s) \<and>
   map status (todos (toggleTodoStatus i s)) = map status (todos s) \<and>
   map task (todos (toggleTodoStatus i s)) = map task (todos s) \<and>
   map dueDate (todos (toggleTodoStatus i s)) = map dueDate (todos s) \<and>
   map id' (todos (toggleTodoStatus i s)) = map id' (todos s) \<and>
   (\<forall>k. findIndex (\<lambda>t. id' t = i) (todos s) \<noteq> Some k \<longrightarrow>
        todos (toggleTodoStatus i s) ! k = todos s ! k) \<and>
   ((\<forall>t\<in>set (todos s). status t = lit ''pending'') \<longrightarrow>
      (\<forall>t\<in>set (todos (run ops s)). status t = lit ''pending''))"
proof -
  have "set (todos (deleteTodo i s)) \<subseteq> set (todos s)"
    by (simp add: deleteTodo_todos)
  moreover have "status (fst (addTodo tsk due r1 r2 s)) = lit ''pending''"
    by (simp add: addTodo_record)
  moreover have "(\<forall>t\<in>set (todos s). status t = lit ''pending'') \<longrightarrow>
      (\<forall>t\<in>set (todos (run ops s)). status t = lit ''pending'')"
    using run_status [of s ops] by blast
  ultimately show ?thesis
    using addTodo_todos [of tsk due r1 r2 s] editTodo_statuses [of i x s]
      toggleTodoStatus_statuses [of i s] toggleTodoStatus_tasks [of i s]
      toggleTodoStatus_dueDates [of i s] toggleTodoStatus_ids [of i s]
      toggleTodoStatus_others [of i s]
    by blast
qed

theorem status_never_updated_witness:
  "list_all (\<lambda>t. status t = lit ''pending'') (todos milk_store) \<and>
   todos (run [Toggle (lit ''ii''), Edit (lit ''ii'') (lit ''Buy oat milk and bread'')] milk_store)
     = [milk\<lparr>completed := True, task := lit ''Buy oat milk and bread''\<rparr>] \<and>
   map status
     (todos (run [Toggle (lit ''ii''), Edit (lit ''ii'') (lit ''Buy oat milk and bread'')] milk_store))
     = [lit ''pending''] \<and>
   findIndex (\<lambda>t. id' t = lit ''zz'') (todos milk_store) \<noteq> Some 0 \<and>
   todos (toggleTodoStatus (lit ''zz'') milk_store) ! 0 = milk"
proof -
  have p: "\<forall>t\<in>set (todos milk_store). status t = lit ''pending''"
    by (simp add: milk_store_todos milk_def)
  have r: "todos (run [Toggle (lit ''ii''), Edit (lit ''ii'') (lit ''Buy oat milk and bread'')] milk_store)
     = [milk\<lparr>completed := True, task := lit ''Buy oat milk and bread''\<rparr>]"
    by (simp add: run_def toggleTodoStatus_todos editTodo_todos milk_store_todos milk_id)
       (simp add: milk_def)
  have z: "findIndex (\<lambda>t. id' t = lit ''zz'') (todos milk_store) \<noteq> Some 0"
    by (simp add: milk_store_todos milk_id) (simp add: lit_def)
  from status_never_updated
         [of "lit ''Buy milk''" None "lit ''0.i''" "lit ''0.i''" milk_store "lit ''zz''"
             "lit ''Buy oat milk and bread''"
             "[Toggle (lit ''ii''), Edit (lit ''ii'') (lit ''Buy oat milk and bread'')]"]
    p z
  have "\<forall>t\<in>set (todos (run [Toggle (lit ''ii''), Edit (lit ''ii'') (lit ''Buy oat milk and bread'')]
                          milk_store)). status t = lit ''pending''"
    and "todos (toggleTodoStatus (lit ''zz'') milk_store) ! 0 = todos milk_store ! 0"
    by blast+
  with p r z show ?thesis by (simp add: milk_store_todos)
qed

section \<open>Reloading what was persisted\<close>

text \<open>What \<open>saveToLocalStorage\<close> wrote for the store with one record is read back by the
  constructor as that record.\<close>

lemma milk_store_storage:
  "getItem (localStorage milk_store) todos_key = Some (JSON_stringify [milk])"
  unfolding milk_store_def addTodo_def Let_def
  by (simp add: saveToLocalStorage_item)
     (simp add: milk_def getRandomId_def substring_def formatTask_def formatDueDate_def lit_def
       empty_store_def)

lemma stringify_milk:
  "JSON_stringify [milk] =
     [0x5B, 0x7B] @ json_key ''id'' @ [0x22] @ lit ''ii'' @ [0x22, 0x2C] @
     json_key ''task'' @ [0x22] @ lit ''Buy milk'' @ [0x22, 0x2C] @
     json_key ''dueDate'' @ [0x22] @ lit ''2024-01-01'' @ [0x22, 0x2C] @
     json_key ''completed'' @ lit ''false'' @ [0x2C] @
     json_key ''status'' @ [0x22] @ lit ''pending'' @ [0x22, 0x7D, 0x5D]"
  by (simp add: JSON_stringify_def stringify_todo_def milk_def QuoteJSONString_def lit_def
      quote_unit_def is_leading_surrogate_def is_trailing_surrogate_def json_key_def)

lemma parse_milk:
  "JSON_parse (JSON_stringify [milk]) =
     Inr (JArray [JObject [(lit ''id'', JString (lit ''ii'')), (lit ''task'', JString (lit ''Buy milk'')),
        (lit ''dueDate'', JString (lit ''2024-01-01'')), (lit ''completed'', JBool False),
        (lit ''status'', JString (lit ''pending''))]])"
  unfolding stringify_milk
  by (simp add: JSON_parse_def json_key_def lit_def is_ws_def is_digit_def parse_step_def
      cons_fst_def simple_escape_def)

lemma reload_milk_store:
  "TodoManager_constructor (localStorage milk_store)
     = Constructed \<lparr>todos = [milk], localStorage = localStorage milk_store\<rparr>"
  by (simp add: TodoManager_constructor_def milk_store_storage parse_milk)
     (simp add: as_collection_def as_todo_def as_string_def as_bool_def milk_def)

end
